theory Spec2Isabelle
  imports Main
begin

section \<open>The intro-sequence controller (static/js/intro.js)\<close>

text \<open>
  The script registers one listener for \<^verbatim>\<open>DOMContentLoaded\<close>. The listener starts a
  timer of \<^verbatim>\<open>introDuration\<close> milliseconds; the timer's callback adds the class
  \<^verbatim>\<open>fade-out\<close> to the body and starts a second timer of 800 milliseconds, whose
  callback assigns \<^verbatim>\<open>window.location.href\<close>.

  The browser is modelled as far as the script touches it: a clock in milliseconds, the
  registered listeners, the pending timers, the body's class list, the location, and a
  journal of the host calls the script has made, each stamped with the clock.
\<close>

type_synonym ms = nat

text \<open>The three arrow functions of the file, from the outermost to the innermost.\<close>

datatype callback = OnDOMContentLoaded | IntroElapsed | ExitElapsed

datatype effect =
    SetTimeout callback ms
  | ClassListAdd string
  | SetHref string

record timer =
  due :: ms
  cb :: callback

record page =
  now :: ms
  listeners :: "(string \<times> callback) list"
  timers :: "timer list"
  classList :: "string list"
  href :: string
  journal :: "(ms \<times> effect) list"

subsection \<open>Host functions called by the script\<close>

definition emit :: "effect \<Rightarrow> page \<Rightarrow> page" where
  "emit e p = p\<lparr>journal := journal p @ [(now p, e)]\<rparr>"

definition addEventListener :: "string \<Rightarrow> callback \<Rightarrow> page \<Rightarrow> page" where
  "addEventListener ev c p = p\<lparr>listeners := listeners p @ [(ev, c)]\<rparr>"

text \<open>\<^verbatim>\<open>setTimeout(f, d)\<close>: the timer becomes due \<open>d\<close> milliseconds after the call.\<close>

definition setTimeout :: "callback \<Rightarrow> ms \<Rightarrow> page \<Rightarrow> page" where
  "setTimeout c d p = emit (SetTimeout c d) (p\<lparr>timers := timers p @ [\<lparr>due = now p + d, cb = c\<rparr>]\<rparr>)"

text \<open>\<^verbatim>\<open>classList.add(c)\<close>: a token already present is not added again.\<close>

definition classList_add :: "string \<Rightarrow> page \<Rightarrow> page" where
  "classList_add c p =
     emit (ClassListAdd c) (if c \<in> set (classList p) then p else p\<lparr>classList := classList p @ [c]\<rparr>)"

definition set_location_href :: "string \<Rightarrow> page \<Rightarrow> page" where
  "set_location_href u p = emit (SetHref u) (p\<lparr>href := u\<rparr>)"

subsection \<open>The script\<close>

definition introDuration :: ms where
  "introDuration = 4500"

text \<open>
  The comment above the constant reads
  \<^verbatim>\<open>Title (1.5s) + Subtitle Delay (1.2s) + Subtitle Animation (1s) + Pause (1.5s)\<close>;
  these are its four summands, in milliseconds.
\<close>

definition documented_phases :: "ms list" where
  "documented_phases = [1500, 1200, 1000, 1500]"

fun call :: "callback \<Rightarrow> page \<Rightarrow> page" where
  "call OnDOMContentLoaded p = setTimeout IntroElapsed introDuration p"
| "call IntroElapsed p = setTimeout ExitElapsed 800 (classList_add ''fade-out'' p)"
| "call ExitElapsed p = set_location_href ''/login'' p"

definition script :: "page \<Rightarrow> page" where
  "script p = addEventListener ''DOMContentLoaded'' OnDOMContentLoaded p"

subsection \<open>The event loop\<close>

text \<open>An event runs the listeners registered for it, in the order of registration.\<close>

fun run_listeners :: "(string \<times> callback) list \<Rightarrow> string \<Rightarrow> page \<Rightarrow> page" where
  "run_listeners [] ev p = p"
| "run_listeners ((name, c) # ls) ev p = run_listeners ls ev (if name = ev then call c p else p)"

definition dispatch :: "string \<Rightarrow> page \<Rightarrow> page" where
  "dispatch ev p = run_listeners (listeners p) ev p"

text \<open>
  The next timer to run is the one due first; among timers due at the same time, the one
  set first. \<open>pick\<close> returns it together with the timers that stay pending.
\<close>

fun pick :: "timer list \<Rightarrow> (timer \<times> timer list) option" where
  "pick [] = None"
| "pick (t # ts) =
     (case pick ts of
        None \<Rightarrow> Some (t, [])
      | Some (u, rest) \<Rightarrow> if due u < due t then Some (u, t # rest) else Some (t, ts))"

text \<open>
  The host runs a timer's callback once the timer is due, and possibly later: \<open>j\<close> is the
  number of milliseconds by which this callback is late.
\<close>

definition fire :: "ms \<Rightarrow> page \<Rightarrow> page" where
  "fire j p =
     (case pick (timers p) of
        None \<Rightarrow> p
      | Some (t, rest) \<Rightarrow> call (cb t) (p\<lparr>now := max (now p) (due t) + j, timers := rest\<rparr>))"

text \<open>
  The lateness of each callback is taken from a list, in the order in which the callbacks
  run; a callback beyond the end of the list runs on time.
\<close>

fun lateness :: "ms list \<Rightarrow> ms" where
  "lateness [] = 0"
| "lateness (j # js) = j"

text \<open>
  Each callback sets at most one timer, for a callback nested one level deeper, so the
  pending work decreases with every callback that runs.
\<close>

fun depth :: "callback \<Rightarrow> nat" where
  "depth OnDOMContentLoaded = 3"
| "depth IntroElapsed = 2"
| "depth ExitElapsed = 1"

definition pending :: "timer list \<Rightarrow> nat" where
  "pending ts = sum_list (map (\<lambda>t. depth (cb t)) ts)"

lemma pick_Nil: "pick ts = None \<longleftrightarrow> ts = []"
  by (cases ts) (auto split: option.splits)

lemma pick_pending:
  "pick ts = Some (t, rest) \<Longrightarrow> pending ts = depth (cb t) + pending rest"
proof (induction ts arbitrary: t rest)
  case Nil
  then show ?case by simp
next
  case (Cons a ts)
  show ?case
  proof (cases "pick ts")
    case None
    then have "ts = []" by (simp add: pick_Nil)
    with Cons.prems show ?thesis by (simp add: pending_def)
  next
    case (Some ur)
    obtain u r where ur: "ur = (u, r)" by (cases ur)
    from Cons.IH [of u r] Some ur have "pending ts = depth (cb u) + pending r" by simp
    with Cons.prems Some ur show ?thesis
      by (auto simp: pending_def split: if_splits)
  qed
qed

lemma call_pending:
  "pending (timers (call c p)) < pending (timers p) + depth c"
  by (cases c)
     (simp_all add: pending_def setTimeout_def emit_def classList_add_def set_location_href_def)

lemma fire_pending:
  assumes "timers p \<noteq> []"
  shows "pending (timers (fire j p)) < pending (timers p)"
proof -
  from assms obtain t rest where pk: "pick (timers p) = Some (t, rest)"
    by (cases "pick (timers p)") (auto simp: pick_Nil)
  have "pending (timers (fire j p)) < pending rest + depth (cb t)"
    using call_pending [of "cb t" "p\<lparr>now := max (now p) (due t) + j, timers := rest\<rparr>"] pk
    by (simp add: fire_def)
  with pick_pending [OF pk] show ?thesis by simp
qed

function run_timers :: "ms list \<Rightarrow> page \<Rightarrow> page" where
  "run_timers js p = (if timers p = [] then p else run_timers (tl js) (fire (lateness js) p))"
  by pat_completeness auto
termination
  by (relation "measure (\<lambda>(js, p). pending (timers p))") (auto simp: fire_pending)

declare run_timers.simps [simp del]

subsection \<open>A page load\<close>

text \<open>
  What the served document fixes before the script runs: its address and the classes the
  markup gives to the body.
\<close>

record html =
  url :: string
  body_class :: "string list"

definition fresh :: "html \<Rightarrow> ms \<Rightarrow> page" where
  "fresh h t = \<lparr>now = t, listeners = [], timers = [], classList = body_class h,
                href = url h, journal = []\<rparr>"

definition advance :: "ms \<Rightarrow> page \<Rightarrow> page" where
  "advance d p = p\<lparr>now := now p + d\<rparr>"

text \<open>
  The script is evaluated at time \<open>t\<close>; the document finishes parsing \<open>d\<close> milliseconds
  later, and the host dispatches \<^verbatim>\<open>DOMContentLoaded\<close> once.
\<close>

definition triggered :: "html \<Rightarrow> ms \<Rightarrow> ms \<Rightarrow> page" where
  "triggered h t d = dispatch ''DOMContentLoaded'' (advance d (script (fresh h t)))"

definition load :: "html \<Rightarrow> ms \<Rightarrow> ms \<Rightarrow> ms list \<Rightarrow> page" where
  "load h t d js = run_timers js (triggered h t d)"

subsection \<open>Observations on a run\<close>

text \<open>The targets of the navigations of a run, and the classes it has added, in order.\<close>

fun nav_target :: "ms \<times> effect \<Rightarrow> string option" where
  "nav_target (x, SetHref u) = Some u"
| "nav_target (x, SetTimeout c d) = None"
| "nav_target (x, ClassListAdd c) = None"

definition navigations :: "page \<Rightarrow> string list" where
  "navigations p = List.map_filter nav_target (journal p)"

fun class_added :: "ms \<times> effect \<Rightarrow> string option" where
  "class_added (x, ClassListAdd c) = Some c"
| "class_added (x, SetTimeout c d) = None"
| "class_added (x, SetHref u) = None"

definition classes_added :: "page \<Rightarrow> string list" where
  "classes_added p = List.map_filter class_added (journal p)"

text \<open>A journal moved in time: every entry \<open>t0\<close> milliseconds later.\<close>

definition shifted :: "ms \<Rightarrow> (ms \<times> effect) list \<Rightarrow> (ms \<times> effect) list" where
  "shifted t0 jl = map (\<lambda>(x, e). (t0 + x, e)) jl"

section \<open>The repository bootstrap script (init-git batch file)\<close>

text \<open>
  The batch file is a sequence of commands run by the command interpreter, one at a time.
  The commands it uses: \<^verbatim>\<open>@echo off\<close>, \<^verbatim>\<open>echo\<close> with a text (\<^verbatim>\<open>echo.\<close> prints an
  empty line), an external program with its arguments, \<^verbatim>\<open>pause\<close>, \<^verbatim>\<open>exit /b\<close> with
  an optional status, and \<^verbatim>\<open>if %errorlevel% neq n ( ... )\<close> with a block of commands.
\<close>

datatype cmd =
    EchoOff
  | Echo string
  | Run string "string list"
  | Pause
  | ExitB "int option"
  | IfErrorlevelNeq int "cmd list"

text \<open>What a run does that can be observed, in order.\<close>

datatype action =
    Printed string
  | Ran string "string list"
  | Paused
  | Returned "int option"

record shell =
  errorlevel :: int
  trace :: "action list"
  returned :: bool

text \<open>
  The exit status of each external program is the host's: a function of the program and
  its arguments (a program that is not found gives a nonzero status too).
\<close>

type_synonym host = "string \<Rightarrow> string list \<Rightarrow> int"

text \<open>
  Only an external program and \<^verbatim>\<open>exit /b\<close> with a status change \<^verbatim>\<open>errorlevel\<close>;
  \<^verbatim>\<open>echo\<close> and \<^verbatim>\<open>pause\<close> leave it as it is, and so does \<^verbatim>\<open>exit /b\<close> with no
  status. After \<^verbatim>\<open>exit /b\<close> no further command of the file runs.
\<close>

fun exec :: "host \<Rightarrow> cmd \<Rightarrow> shell \<Rightarrow> shell"
  and exec_block :: "host \<Rightarrow> cmd list \<Rightarrow> shell \<Rightarrow> shell" where
  "exec h EchoOff s = s"
| "exec h (Echo txt) s = s\<lparr>trace := trace s @ [Printed txt]\<rparr>"
| "exec h (Run prog args) s =
     s\<lparr>errorlevel := h prog args, trace := trace s @ [Ran prog args]\<rparr>"
| "exec h Pause s = s\<lparr>trace := trace s @ [Paused]\<rparr>"
| "exec h (ExitB status) s =
     s\<lparr>errorlevel := (case status of None \<Rightarrow> errorlevel s | Some n \<Rightarrow> n),
       trace := trace s @ [Returned status], returned := True\<rparr>"
| "exec h (IfErrorlevelNeq n body) s =
     (if errorlevel s \<noteq> n then exec_block h body s else s)"
| "exec_block h [] s = s"
| "exec_block h (c # cs) s =
     (if returned s then s else exec_block h cs (exec h c s))"

text \<open>Lines 1 to 24 of the file.\<close>

definition init_git :: "cmd list" where
  "init_git =
    [EchoOff,
     Echo ''Initializing Git Repository...'',
     Run ''git'' [''init''],
     IfErrorlevelNeq 0
       [Echo ''Error: Git is still not recognized. Please restart VS Code/Terminal and try again.'',
        Pause,
        ExitB None],
     Echo ''Adding files...'',
     Run ''git'' [''add'', ''.''],
     Run ''git'' [''commit'', ''-m'', ''Initial commit for Majima AI''],
     Echo [],
     Echo ''Git repository initialized successfully!'',
     Echo [],
     Echo ''Next steps:'',
     Echo ''1. Create a new repository on GitHub.com'',
     Echo ''2. Run the commands shown on GitHub, for example:'',
     Echo ''   git remote add origin https://github.com/YOUR_USERNAME/YOUR_REPO_NAME.git'',
     Echo ''   git branch -M main'',
     Echo ''   git push -u origin main'',
     Echo [],
     Pause]"

text \<open>A run starts with the \<^verbatim>\<open>errorlevel\<close> the caller left.\<close>

definition run :: "host \<Rightarrow> int \<Rightarrow> shell" where
  "run h e0 = exec_block h init_git \<lparr>errorlevel = e0, trace = [], returned = False\<rparr>"

subsection \<open>Observations on the script and on a run\<close>

text \<open>The number of exit-status checks in a script.\<close>

fun checks :: "cmd \<Rightarrow> nat"
  and checks_block :: "cmd list \<Rightarrow> nat" where
  "checks (IfErrorlevelNeq n body) = Suc (checks_block body)"
| "checks EchoOff = 0"
| "checks (Echo txt) = 0"
| "checks (Run prog args) = 0"
| "checks Pause = 0"
| "checks (ExitB status) = 0"
| "checks_block [] = 0"
| "checks_block (c # cs) = checks c + checks_block cs"

text \<open>The arguments that follow \<^verbatim>\<open>git commit\<close>, for each commit a run has made.\<close>

fun commit_args :: "action \<Rightarrow> string list option" where
  "commit_args (Ran prog (sub # args)) =
     (if prog = ''git'' \<and> sub = ''commit'' then Some args else None)"
| "commit_args (Ran prog []) = None"
| "commit_args (Printed txt) = None"
| "commit_args Paused = None"
| "commit_args (Returned status) = None"

definition commits :: "shell \<Rightarrow> string list list" where
  "commits s = List.map_filter commit_args (trace s)"

text \<open>The lines the file prints after the commit (lines 14 to 23).\<close>

definition follow_up :: "action list" where
  "follow_up =
    [Printed [],
     Printed ''Git repository initialized successfully!'',
     Printed [],
     Printed ''Next steps:'',
     Printed ''1. Create a new repository on GitHub.com'',
     Printed ''2. Run the commands shown on GitHub, for example:'',
     Printed ''   git remote add origin https://github.com/YOUR_USERNAME/YOUR_REPO_NAME.git'',
     Printed ''   git branch -M main'',
     Printed ''   git push -u origin main'',
     Printed []]"

section \<open>Properties of the intro-sequence controller\<close>

subsection \<open>The run, step by step\<close>

lemma triggered_eq:
  "triggered h t d =
     \<lparr>now = t + d, listeners = [(''DOMContentLoaded'', OnDOMContentLoaded)],
      timers = [\<lparr>due = t + d + introDuration, cb = IntroElapsed\<rparr>],
      classList = body_class h, href = url h,
      journal = [(t + d, SetTimeout IntroElapsed introDuration)]\<rparr>"
  by (simp add: triggered_def dispatch_def advance_def script_def fresh_def
      addEventListener_def setTimeout_def emit_def)

lemma fire_intro:
  "fire j (triggered h t d) =
     \<lparr>now = t + d + introDuration + j,
      listeners = [(''DOMContentLoaded'', OnDOMContentLoaded)],
      timers = [\<lparr>due = t + d + introDuration + j + 800, cb = ExitElapsed\<rparr>],
      classList = (if ''fade-out'' \<in> set (body_class h) then body_class h
                   else body_class h @ [''fade-out'']),
      href = url h,
      journal = [(t + d, SetTimeout IntroElapsed introDuration),
                 (t + d + introDuration + j, ClassListAdd ''fade-out''),
                 (t + d + introDuration + j, SetTimeout ExitElapsed 800)]\<rparr>"
  by (simp add: triggered_eq fire_def setTimeout_def classList_add_def emit_def max_def)

lemma fire_exit:
  "fire k (fire j (triggered h t d)) =
     \<lparr>now = t + d + introDuration + j + 800 + k,
      listeners = [(''DOMContentLoaded'', OnDOMContentLoaded)],
      timers = [],
      classList = (if ''fade-out'' \<in> set (body_class h) then body_class h
                   else body_class h @ [''fade-out'']),
      href = ''/login'',
      journal = [(t + d, SetTimeout IntroElapsed introDuration),
                 (t + d + introDuration + j, ClassListAdd ''fade-out''),
                 (t + d + introDuration + j, SetTimeout ExitElapsed 800),
                 (t + d + introDuration + j + 800 + k, SetHref ''/login'')]\<rparr>"
  unfolding fire_intro by (simp add: fire_def set_location_href_def emit_def max_def)

text \<open>A load runs exactly two timer callbacks, then no timer is pending.\<close>

lemma load_eq:
  "load h t d js = fire (lateness (tl js)) (fire (lateness js) (triggered h t d))"
proof -
  have "load h t d js = run_timers (tl js) (fire (lateness js) (triggered h t d))"
    unfolding load_def by (subst run_timers.simps) (simp add: triggered_eq)
  also have "\<dots> = run_timers (tl (tl js))
      (fire (lateness (tl js)) (fire (lateness js) (triggered h t d)))"
    by (subst run_timers.simps) (simp add: fire_intro)
  also have "\<dots> = fire (lateness (tl js)) (fire (lateness js) (triggered h t d))"
    by (subst run_timers.simps) (simp add: fire_exit)
  finally show ?thesis .
qed

lemma journal_load:
  "journal (load h t d js) =
     [(t + d, SetTimeout IntroElapsed introDuration),
      (t + d + introDuration + lateness js, ClassListAdd ''fade-out''),
      (t + d + introDuration + lateness js, SetTimeout ExitElapsed 800),
      (t + d + introDuration + lateness js + 800 + lateness (tl js), SetHref ''/login'')]"
  by (simp add: load_eq fire_exit)

lemma classList_load:
  "classList (load h t d js) =
     (if ''fade-out'' \<in> set (body_class h) then body_class h else body_class h @ [''fade-out''])"
  by (simp add: load_eq fire_exit)

subsection \<open>The claims about the controller\<close>

text \<open>
  C1 (the intro duration and its documented summands). The claim is that the constant
  equals the sum of the four values of the comment. Evaluated: the constant is 4500, the
  four values add up to 5200, and the constant is 700 milliseconds short of that sum.
\<close>

theorem introDuration_short_of_documented_sum:
  "introDuration = 4500 \<and> sum_list documented_phases = 5200
   \<and> introDuration + 700 = sum_list documented_phases"
  by (simp add: introDuration_def documented_phases_def)

text \<open>
  C2 (the two waits are sequential). After the trigger at \<open>t + d\<close> the only pending
  timer is the intro timer. Whatever the lateness of the host's callbacks, the journal of
  the load has four entries: the intro timer set at the trigger; the class added at a
  time \<open>ta\<close> no earlier than 4500 ms after the trigger; the exit timer set at that same
  time \<open>ta\<close>, never before; and the navigation at a time \<open>tn\<close> no earlier than 800 ms
  after \<open>ta\<close>, hence no earlier than 4500 + 800 ms after the trigger.
\<close>

theorem intro_waits_are_sequential:
  "timers (triggered h t d) = [\<lparr>due = t + d + 4500, cb = IntroElapsed\<rparr>]
   \<and> (let t0 = t + d;
           ta = t0 + 4500 + lateness js;
           tn = ta + 800 + lateness (tl js)
       in journal (load h t d js) =
            [(t0, SetTimeout IntroElapsed 4500), (ta, ClassListAdd ''fade-out''),
             (ta, SetTimeout ExitElapsed 800), (tn, SetHref ''/login'')]
          \<and> t0 + introDuration \<le> ta
          \<and> ta + 800 \<le> tn
          \<and> t0 + introDuration + 800 \<le> tn)"
  by (simp add: triggered_eq journal_load introDuration_def Let_def)

text \<open>
  C4 (exactly one navigation). Every load, whatever the document, the times and the
  lateness of the callbacks, navigates exactly once, to \<^verbatim>\<open>/login\<close>: nothing has
  navigated when the trigger has run nor when the first callback has run, the whole run
  has the single navigation, the location ends as \<^verbatim>\<open>/login\<close>, and no timer is left
  that could navigate again.
\<close>

theorem exactly_one_navigation:
  "navigations (triggered h t d) = []
   \<and> navigations (fire j (triggered h t d)) = []
   \<and> navigations (load h t d js) = [''/login'']
   \<and> href (load h t d js) = ''/login''
   \<and> timers (load h t d js) = []"
proof -
  have "navigations (triggered h t d) = []"
    by (simp add: navigations_def List.map_filter_def triggered_eq)
  moreover have "navigations (fire j (triggered h t d)) = []"
    by (simp add: navigations_def List.map_filter_def fire_intro)
  moreover have "navigations (load h t d js) = [''/login'']"
    by (simp add: navigations_def List.map_filter_def journal_load)
  moreover have "href (load h t d js) = ''/login''" and "timers (load h t d js) = []"
    by (simp_all add: load_eq fire_exit)
  ultimately show ?thesis by simp
qed

text \<open>
  C8 (two loads give the same timeline). The host calls of a load, with their delays and
  targets, are the same for any two loads, whatever their documents, times and lateness;
  and the timed journal of any load is the journal of a load of the empty document at
  time zero with the same lateness, moved to the trigger time. Nothing of one load is an
  input of another.
\<close>

theorem loads_give_the_same_timeline:
  "map snd (journal (load h t d js)) = map snd (journal (load h' t' d' js'))
   \<and> map snd (journal (load h t d js)) =
       [SetTimeout IntroElapsed 4500, ClassListAdd ''fade-out'',
        SetTimeout ExitElapsed 800, SetHref ''/login'']
   \<and> journal (load h t d js) =
       shifted (t + d) (journal (load \<lparr>url = [], body_class = []\<rparr> 0 0 js))"
  by (simp add: journal_load shifted_def introDuration_def)

text \<open>
  C10 (the exit state is the class \<^verbatim>\<open>fade-out\<close> on the body). The only class a load
  adds is \<^verbatim>\<open>fade-out\<close>, once; the body ends with the classes of the markup and
  \<^verbatim>\<open>fade-out\<close>; and no callback of the script, run on any page, removes a class.
\<close>

theorem fade_out_added_and_kept:
  "classes_added (load h t d js) = [''fade-out'']
   \<and> set (classList (load h t d js)) = insert ''fade-out'' (set (body_class h))
   \<and> classList (load h t d js) =
       (if ''fade-out'' \<in> set (body_class h) then body_class h
        else body_class h @ [''fade-out''])
   \<and> set (classList p) \<subseteq> set (classList (call c p))"
proof -
  have "set (classList p) \<subseteq> set (classList (call c p))"
    by (cases c)
       (auto simp: setTimeout_def classList_add_def set_location_href_def emit_def)
  moreover have "classes_added (load h t d js) = [''fade-out'']"
    by (simp add: classes_added_def List.map_filter_def journal_load)
  ultimately show ?thesis
    by (auto simp: classList_load)
qed

section \<open>Properties of the bootstrap script\<close>

subsection \<open>The two runs\<close>

text \<open>
  A run depends on the host only through the status of \<^verbatim>\<open>git init\<close>: nonzero, it stops
  in the block of the check; zero, it runs to the end of the file.
\<close>

lemma run_failure:
  assumes "h ''git'' [''init''] \<noteq> 0"
  shows "run h e0 =
     \<lparr>errorlevel = h ''git'' [''init''],
      trace = [Printed ''Initializing Git Repository...'',
               Ran ''git'' [''init''],
               Printed ''Error: Git is still not recognized. Please restart VS Code/Terminal and try again.'',
               Paused,
               Returned None],
      returned = True\<rparr>"
  using assms by (simp add: run_def init_git_def)

lemma run_success:
  assumes "h ''git'' [''init''] = 0"
  shows "run h e0 =
     \<lparr>errorlevel = h ''git'' [''commit'', ''-m'', ''Initial commit for Majima AI''],
      trace = [Printed ''Initializing Git Repository...'',
               Ran ''git'' [''init''],
               Printed ''Adding files...'',
               Ran ''git'' [''add'', ''.''],
               Ran ''git'' [''commit'', ''-m'', ''Initial commit for Majima AI'']]
              @ follow_up @ [Paused],
      returned = False\<rparr>"
  using assms by (simp add: run_def init_git_def follow_up_def)

subsection \<open>The claims about the script\<close>

text \<open>
  C3 (a failed initialization stops the script). When \<^verbatim>\<open>git init\<close> exits with a
  nonzero status, the run is: the opening line, \<^verbatim>\<open>git init\<close>, the diagnostic, the
  pause, the return, and nothing else. Staging, the commit and the follow-up lines each
  take place exactly when \<^verbatim>\<open>git init\<close> exited with status zero.
\<close>

theorem failed_initialization_halts:
  "(h ''git'' [''init''] \<noteq> 0 \<longrightarrow>
      trace (run h e0) =
        [Printed ''Initializing Git Repository...'',
         Ran ''git'' [''init''],
         Printed ''Error: Git is still not recognized. Please restart VS Code/Terminal and try again.'',
         Paused,
         Returned None])
   \<and> (Ran ''git'' [''add'', ''.''] \<in> set (trace (run h e0))) = (h ''git'' [''init''] = 0)
   \<and> (Ran ''git'' [''commit'', ''-m'', ''Initial commit for Majima AI'']
        \<in> set (trace (run h e0))) = (h ''git'' [''init''] = 0)
   \<and> (set follow_up \<subseteq> set (trace (run h e0))) = (h ''git'' [''init''] = 0)"
proof (cases "h ''git'' [''init''] = 0")
  case True
  then show ?thesis by (auto simp: run_success)
next
  case False
  then show ?thesis by (simp add: run_failure follow_up_def)
qed

theorem failed_initialization_halts_witness:
  "trace (run (\<lambda>prog args. 1) 0) =
     [Printed ''Initializing Git Repository...'',
      Ran ''git'' [''init''],
      Printed ''Error: Git is still not recognized. Please restart VS Code/Terminal and try again.'',
      Paused,
      Returned None]
   \<and> Ran ''git'' [''add'', ''.''] \<notin> set (trace (run (\<lambda>prog args. 1) 0))"
  using failed_initialization_halts [of "\<lambda>prog args. 1" 0] by simp

text \<open>
  C5 (the early return carries no status). When \<^verbatim>\<open>git init\<close> exits with a nonzero
  status, the last two things the run does are the pause and the return; the return is
  \<^verbatim>\<open>exit /b\<close> with no status, no return of the run carries one, and \<^verbatim>\<open>errorlevel\<close>
  is left as \<^verbatim>\<open>git init\<close> set it.
\<close>

theorem failed_initialization_returns_without_status:
  assumes "h ''git'' [''init''] \<noteq> 0"
  shows "last (butlast (trace (run h e0))) = Paused
   \<and> last (trace (run h e0)) = Returned None
   \<and> returned (run h e0)
   \<and> Returned (Some n) \<notin> set (trace (run h e0))
   \<and> errorlevel (run h e0) = h ''git'' [''init'']"
  using assms by (simp add: run_failure)

theorem failed_initialization_returns_without_status_witness:
  "last (butlast (trace (run (\<lambda>prog args. 9009) 0))) = Paused
   \<and> last (trace (run (\<lambda>prog args. 9009) 0)) = Returned None
   \<and> Returned (Some 1) \<notin> set (trace (run (\<lambda>prog args. 9009) 0))
   \<and> errorlevel (run (\<lambda>prog args. 9009) 0) = 9009"
  using failed_initialization_returns_without_status [of "\<lambda>prog args. 9009" 0 1] by simp

text \<open>
  C6 (only the initialization is checked). The file has one exit-status check, and the
  diagnostic is printed exactly when \<^verbatim>\<open>git init\<close> exited with a nonzero status. When
  \<^verbatim>\<open>git init\<close> exited with zero, the run is the same as the run in which every program
  exits with zero, whatever the statuses of \<^verbatim>\<open>git add\<close> and \<^verbatim>\<open>git commit\<close>: it
  prints the success message and the follow-up lines, and it does not return early.
\<close>

theorem staging_and_commit_are_unchecked:
  "checks_block init_git = 1
   \<and> (Printed ''Error: Git is still not recognized. Please restart VS Code/Terminal and try again.'' \<in> set (trace (run h e0))) = (h ''git'' [''init''] \<noteq> 0)
   \<and> (h ''git'' [''init''] = 0 \<longrightarrow>
        trace (run h e0) = trace (run (\<lambda>prog args. 0) e0)
        \<and> Printed ''Git repository initialized successfully!'' \<in> set (trace (run h e0))
        \<and> set follow_up \<subseteq> set (trace (run h e0))
        \<and> \<not> returned (run h e0))"
proof -
  have "checks_block init_git = 1"
    by (simp add: init_git_def)
  moreover have "(Printed ''Error: Git is still not recognized. Please restart VS Code/Terminal and try again.'' \<in> set (trace (run h e0))) = (h ''git'' [''init''] \<noteq> 0)"
    by (cases "h ''git'' [''init''] = 0") (simp_all add: run_success run_failure follow_up_def)
  moreover have "trace (run h e0) = trace (run (\<lambda>prog args. 0) e0)"
    and "Printed ''Git repository initialized successfully!'' \<in> set (trace (run h e0))"
    and "set follow_up \<subseteq> set (trace (run h e0))"
    and "\<not> returned (run h e0)"
    if "h ''git'' [''init''] = 0"
    using that by (auto simp: run_success) (simp add: follow_up_def)
  ultimately show ?thesis by blast
qed

theorem staging_and_commit_are_unchecked_witness:
  "trace (run (\<lambda>prog args. if args = [''init''] then 0 else 1) 0)
     = trace (run (\<lambda>prog args. 0) 0)
   \<and> Printed ''Git repository initialized successfully!''
       \<in> set (trace (run (\<lambda>prog args. if args = [''init''] then 0 else 1) 0))
   \<and> \<not> returned (run (\<lambda>prog args. if args = [''init''] then 0 else 1) 0)"
proof -
  have "(\<lambda>prog args. if args = [''init''] then 0 else (1::int)) ''git'' [''init''] = 0"
    by simp
  with staging_and_commit_are_unchecked
    [of "\<lambda>prog args. if args = [''init''] then 0 else 1" 0]
  show ?thesis by blast
qed

text \<open>
  C7 (the success path). When \<^verbatim>\<open>git init\<close> exits with status zero the run is, in this
  order: the opening line, \<^verbatim>\<open>git init\<close>, the staging line, \<^verbatim>\<open>git add .\<close>,
  \<^verbatim>\<open>git commit\<close> with the fixed message, the follow-up lines, which name the
  placeholder remote address and the branch \<^verbatim>\<open>main\<close>, and last the pause. The run ends
  at the end of the file, not by an early return.
\<close>

theorem success_path_runs_in_sequence:
  assumes "h ''git'' [''init''] = 0"
  shows "trace (run h e0) =
     [Printed ''Initializing Git Repository...'',
      Ran ''git'' [''init''],
      Printed ''Adding files...'',
      Ran ''git'' [''add'', ''.''],
      Ran ''git'' [''commit'', ''-m'', ''Initial commit for Majima AI''],
      Printed [],
      Printed ''Git repository initialized successfully!'',
      Printed [],
      Printed ''Next steps:'',
      Printed ''1. Create a new repository on GitHub.com'',
      Printed ''2. Run the commands shown on GitHub, for example:'',
      Printed ''   git remote add origin https://github.com/YOUR_USERNAME/YOUR_REPO_NAME.git'',
      Printed ''   git branch -M main'',
      Printed ''   git push -u origin main'',
      Printed [],
      Paused]
   \<and> \<not> returned (run h e0)"
  using assms by (simp add: run_success follow_up_def)

theorem success_path_runs_in_sequence_witness:
  "last (trace (run (\<lambda>prog args. 0) 0)) = Paused
   \<and> take 5 (trace (run (\<lambda>prog args. 0) 0)) =
       [Printed ''Initializing Git Repository...'',
        Ran ''git'' [''init''],
        Printed ''Adding files...'',
        Ran ''git'' [''add'', ''.''],
        Ran ''git'' [''commit'', ''-m'', ''Initial commit for Majima AI'']]
   \<and> \<not> returned (run (\<lambda>prog args. 0) 0)"
  using success_path_runs_in_sequence [of "\<lambda>prog args. 0" 0] by simp

text \<open>
  C9 (the commit message). A run commits once when \<^verbatim>\<open>git init\<close> exited with status
  zero and never otherwise, and the arguments of that commit are \<^verbatim>\<open>-m\<close> and the
  message \<^verbatim>\<open>Initial commit for Majima AI\<close>.
\<close>

theorem commit_message_is_fixed:
  "commits (run h e0) =
     (if h ''git'' [''init''] = 0 then [[''-m'', ''Initial commit for Majima AI'']] else [])"
  by (cases "h ''git'' [''init''] = 0")
     (simp_all add: commits_def List.map_filter_def run_success run_failure follow_up_def)

end
